theory Spec2Isabelle
  imports Main
begin

section \<open>The Kubernetes API server compliance check\<close>

text \<open>
  A shallow embedding of \<^verbatim>\<open>pkg/compliance/checks/kubeapiserver_check.go\<close>:
  the constructor \<^verbatim>\<open>newKubeapiserverCheck\<close>, the method \<^verbatim>\<open>Run\<close> and the
  method \<^verbatim>\<open>reportResource\<close>. Go strings are \<open>string\<close>, the map
  \<^verbatim>\<open>compliance.KVMap\<close> is a partial function, a Go \<^verbatim>\<open>error\<close> result is a
  sum with the error on the left, and the two effects of the check (requests sent to the
  cluster API and calls of \<^verbatim>\<open>c.report\<close>) are logged in an explicit state.
\<close>

subsection \<open>Data\<close>

type_synonym KVMap = "string \<rightharpoonup> string"

text \<open>
  \<^verbatim>\<open>compliance.ReportedField\<close>, one entry of \<^verbatim>\<open>kubeResource.Report\<close>. The source reads
  its fields \<^verbatim>\<open>Property\<close>, \<^verbatim>\<open>Kind\<close>, \<^verbatim>\<open>As\<close> and \<^verbatim>\<open>Value\<close>; the field \<^verbatim>\<open>Kind\<close> is
  named \<open>FieldKind\<close> here, since the resource has a field \<^verbatim>\<open>Kind\<close> of its own.
\<close>

record ReportedField =
  Property :: string
  FieldKind :: string
  As :: string
  Value :: string

record APIRequest =
  Verb :: string
  ResourceName :: string

text \<open>\<^verbatim>\<open>compliance.KubernetesResource\<close>, with the fields the check reads.\<close>

record KubernetesResource =
  Kind :: string
  Version :: string
  Group :: string
  Namespace :: string
  APIRequest :: APIRequest
  Report :: "ReportedField list"

text \<open>\<^verbatim>\<open>schema.GroupVersionResource\<close>, as \<^verbatim>\<open>Run\<close> builds it (lines 60 to 64).\<close>

record GroupVersionResource =
  gvrGroup :: string
  gvrResource :: string
  gvrVersion :: string

text \<open>
  \<^verbatim>\<open>unstructured.Unstructured\<close>: the untyped content \<^verbatim>\<open>p.Object\<close>, of a type left
  open, and what the accessors \<^verbatim>\<open>GroupVersionKind()\<close>, \<^verbatim>\<open>GetNamespace()\<close> and
  \<^verbatim>\<open>GetName()\<close> return for the document.
\<close>

record 'o Unstructured =
  Object :: 'o
  gvkKind :: string
  gvkGroup :: string
  gvkVersion :: string
  GetNamespace :: string
  GetName :: string

text \<open>
  The dynamic client \<^verbatim>\<open>kubeDynamic.Interface\<close> is a library outside the repository. It
  is represented by the answers it gives: for a resource schema, a namespace (empty when
  the request is not scoped to a namespace, lines 68 to 72) and, for \<^verbatim>\<open>Get\<close>, a name,
  either the error of the call or the document(s).
\<close>

record 'o kubeClient =
  Get :: "GroupVersionResource \<Rightarrow> string \<Rightarrow> string \<Rightarrow> string + 'o Unstructured"
  List :: "GroupVersionResource \<Rightarrow> string \<Rightarrow> string + 'o Unstructured list"

text \<open>Of the embedded \<^verbatim>\<open>baseCheck\<close> the file reads \<^verbatim>\<open>ruleID\<close> only.\<close>

record baseCheck =
  ruleID :: string

record 'o kubeApiserverCheck =
  base :: baseCheck
  kubeClient :: "'o kubeClient"
  kubeResource :: KubernetesResource

text \<open>
  The errors of the file are all built by \<^verbatim>\<open>fmt.Errorf\<close>; they are told apart here by
  the place that builds them, under the names the specification gives them, and carry
  values their message is formatted from.
  \<^item> \<open>ConfigurationError reason rule\<close>: lines 43 and 47;
  \<^item> \<open>InvalidRequestError rule\<close>: line 78;
  \<^item> \<open>QueryError verb err\<close>: lines 82 and 88, \<open>err\<close> the error of the client;
  \<^item> \<open>ExtractionError property err\<close>: line 111, \<open>err\<close> the error of the query;
  \<^item> \<open>UnsupportedRuleError kind\<close>: line 128.
\<close>

datatype error =
    ConfigurationError string string
  | InvalidRequestError string
  | QueryError string string
  | ExtractionError string string
  | UnsupportedRuleError string

text \<open>
  The observable effects: the requests sent to the cluster API, and the calls of
  \<^verbatim>\<open>c.report(tags, kv)\<close>, each with its two arguments (\<^verbatim>\<open>nil\<close> tags are \<open>[]\<close>),
  both in the order they happen.
\<close>

datatype api_call =
    GetCall GroupVersionResource string string
  | ListCall GroupVersionResource string

record world =
  api_calls :: "api_call list"
  reported :: "(string list \<times> KVMap) list"

subsection \<open>Constants\<close>

definition kubeResourceNameKey :: string where
  "kubeResourceNameKey = ''kube_resource_name''"

definition kubeResourceGroupKey :: string where
  "kubeResourceGroupKey = ''kube_resource_group''"

definition kubeResourceVersionKey :: string where
  "kubeResourceVersionKey = ''kube_resource_version''"

definition kubeResourceNamespaceKey :: string where
  "kubeResourceNamespaceKey = ''kube_resource_namespace''"

definition kubeResourceKindKey :: string where
  "kubeResourceKindKey = ''kube_resource_kind''"

text \<open>
  Modelled from the spec: the constant \<^verbatim>\<open>compliance.PropertyKindJSONQuery\<close> is declared
  in package \<^verbatim>\<open>compliance\<close>, which is not among the sources. The specification calls the
  one supported tag \<^verbatim>\<open>jsonQuery\<close>. The spelling matters only where an example needs a
  kind that differs from it.
\<close>

definition PropertyKindJSONQuery :: string where
  "PropertyKindJSONQuery = ''jsonQuery''"

subsection \<open>Construction\<close>

text \<open>
  \<^verbatim>\<open>newKubeapiserverCheck\<close> (lines 35 to 55). The resource is copied into the check,
  then the kind and the verb are tested in this order, then an empty version is replaced
  by \<^verbatim>\<open>"v1"\<close>. The resource is taken by value: a \<^verbatim>\<open>nil\<close> pointer is not an input of the
  model.
\<close>

definition newKubeapiserverCheck ::
  "baseCheck \<Rightarrow> KubernetesResource \<Rightarrow> 'o kubeClient \<Rightarrow> error + 'o kubeApiserverCheck" where
  "newKubeapiserverCheck bc kr kc =
     (if length (Kind kr) = 0 then
        Inl (ConfigurationError ''resource kind is empty'' (ruleID bc))
      else if length (Verb (APIRequest kr)) = 0 then
        Inl (ConfigurationError ''action verb is empty'' (ruleID bc))
      else
        Inr \<lparr>base = bc, kubeClient = kc,
             kubeResource = (if length (Version kr) = 0 then kr\<lparr>Version := ''v1''\<rparr> else kr)\<rparr>)"

subsection \<open>Reporting one document\<close>

text \<open>
  The loop of \<^verbatim>\<open>reportResource\<close> over \<^verbatim>\<open>c.kubeResource.Report\<close> (lines 106 to 130),
  with the map \<^verbatim>\<open>kv\<close> as accumulator. \<^verbatim>\<open>json.RunSingleOutput\<close> belongs to a package
  that is not among the sources and is a parameter \<open>rso\<close>: applied to the property and
  the content of the document it gives the error of the query, or the value together
  with the flag \<^verbatim>\<open>valueFound\<close>.
\<close>

fun reportFields ::
  "(string \<Rightarrow> 'o \<Rightarrow> string + string \<times> bool) \<Rightarrow> 'o Unstructured \<Rightarrow>
   ReportedField list \<Rightarrow> KVMap \<Rightarrow> error + KVMap" where
  "reportFields rso p [] kv = Inr kv"
| "reportFields rso p (field # rest) kv =
     (if FieldKind field = PropertyKindJSONQuery then
        (case rso (Property field) (Object p) of
           Inl err \<Rightarrow> Inl (ExtractionError (Property field) err)
         | Inr (reportValue, valueFound) \<Rightarrow>
             if \<not> valueFound then reportFields rso p rest kv
             else
               let reportName = (if length (As field) > 0 then As field else Property field);
                   reportValue = (if length (Value field) > 0 then Value field else reportValue)
               in reportFields rso p rest (kv(reportName \<mapsto> reportValue)))
      else Inl (UnsupportedRuleError (FieldKind field)))"

text \<open>Lines 132 to 138: the five assignments, made when \<^verbatim>\<open>len(kv) > 0\<close>.\<close>

definition addMetadata :: "'o Unstructured \<Rightarrow> KVMap \<Rightarrow> KVMap" where
  "addMetadata p kv =
     (if kv \<noteq> Map.empty then
        kv(kubeResourceKindKey \<mapsto> gvkKind p,
           kubeResourceGroupKey \<mapsto> gvkGroup p,
           kubeResourceVersionKey \<mapsto> gvkVersion p,
           kubeResourceNamespaceKey \<mapsto> GetNamespace p,
           kubeResourceNameKey \<mapsto> GetName p)
      else kv)"

text \<open>
  \<^verbatim>\<open>reportResource\<close> (lines 103 to 142): the loop from the empty map, the metadata,
  then \<^verbatim>\<open>c.report(nil, kv)\<close> on line 140, which stands after the conditional and not
  inside it. The call is logged with its two arguments. The method \<^verbatim>\<open>report\<close> belongs to
  \<^verbatim>\<open>baseCheck\<close>, which is not among the sources: what it does with the record is
  modelled apart, in the subsection on the reporter.
\<close>

definition reportResource ::
  "(string \<Rightarrow> 'o \<Rightarrow> string + string \<times> bool) \<Rightarrow> 'o kubeApiserverCheck \<Rightarrow>
   'o Unstructured \<Rightarrow> world \<Rightarrow> (error + unit) \<times> world" where
  "reportResource rso c p w =
     (case reportFields rso p (Report (kubeResource c)) Map.empty of
        Inl e \<Rightarrow> (Inl e, w)
      | Inr kv \<Rightarrow> (Inr (), w\<lparr>reported := reported w @ [([], addMetadata p kv)]\<rparr>))"

subsection \<open>Run\<close>

text \<open>The loop of \<^verbatim>\<open>Run\<close> over the resources (lines 94 to 98).\<close>

fun reportResources ::
  "(string \<Rightarrow> 'o \<Rightarrow> string + string \<times> bool) \<Rightarrow> 'o kubeApiserverCheck \<Rightarrow>
   'o Unstructured list \<Rightarrow> world \<Rightarrow> (error + unit) \<times> world" where
  "reportResources rso c [] w = (Inr (), w)"
| "reportResources rso c (resource # resources) w =
     (case reportResource rso c resource w of
        (Inl err, w') \<Rightarrow> (Inl err, w')
      | (Inr u, w') \<Rightarrow> reportResources rso c resources w')"

text \<open>
  The first part of \<^verbatim>\<open>Run\<close> (lines 60 to 91): the resource schema, and the switch on the
  verb that fills \<^verbatim>\<open>resources\<close>. The switch has no default case, so any other verb leaves
  \<^verbatim>\<open>resources\<close> as declared, the \<^verbatim>\<open>nil\<close> slice. A request is logged when it is sent:
  \<^verbatim>\<open>Get\<close> and \<^verbatim>\<open>List\<close> are the requests; \<^verbatim>\<open>Resource\<close> and \<^verbatim>\<open>Namespace\<close> (lines 65 to 72)
  only build the handle the request is sent through.
\<close>

definition fetchResources ::
  "'o kubeApiserverCheck \<Rightarrow> world \<Rightarrow> (error + 'o Unstructured list) \<times> world" where
  "fetchResources c w =
     (let kr = kubeResource c;
          resourceSchema = \<lparr>gvrGroup = Group kr, gvrResource = Kind kr, gvrVersion = Version kr\<rparr>
      in
        if Verb (APIRequest kr) = ''get'' then
          (if length (ResourceName (APIRequest kr)) = 0 then
             (Inl (InvalidRequestError (ruleID (base c))), w)
           else
             let w' = w\<lparr>api_calls := api_calls w @
                        [GetCall resourceSchema (Namespace kr) (ResourceName (APIRequest kr))]\<rparr>
             in case Get (kubeClient c) resourceSchema (Namespace kr) (ResourceName (APIRequest kr)) of
                  Inl err \<Rightarrow> (Inl (QueryError ''get'' err), w')
                | Inr resource \<Rightarrow> (Inr [resource], w'))
        else if Verb (APIRequest kr) = ''list'' then
          (let w' = w\<lparr>api_calls := api_calls w @ [ListCall resourceSchema (Namespace kr)]\<rparr>
           in case List (kubeClient c) resourceSchema (Namespace kr) of
                Inl err \<Rightarrow> (Inl (QueryError ''list'' err), w')
              | Inr items \<Rightarrow> (Inr items, w'))
        else (Inr [], w))"

text \<open>\<^verbatim>\<open>Run\<close> (lines 57 to 101).\<close>

definition Run ::
  "(string \<Rightarrow> 'o \<Rightarrow> string + string \<times> bool) \<Rightarrow> 'o kubeApiserverCheck \<Rightarrow>
   world \<Rightarrow> (error + unit) \<times> world" where
  "Run rso c w =
     (case fetchResources c w of
        (Inl err, w') \<Rightarrow> (Inl err, w')
      | (Inr resources, w') \<Rightarrow> reportResources rso c resources w')"

subsection \<open>The reporter\<close>

text \<open>
  Modelled from the spec: the method \<^verbatim>\<open>report\<close> of \<^verbatim>\<open>baseCheck\<close>, which line 140 calls, is
  not among the sources, and neither is the reporter behind it. The specification says of
  the record of a document: if it is non-empty it is handed to the external reporter; if
  it is empty it is discarded silently, with no report call. The calls the external
  reporter has received are a list \<open>sink\<close>, in the order they happen.
\<close>

definition report ::
  "string list \<Rightarrow> KVMap \<Rightarrow> (string list \<times> KVMap) list \<Rightarrow> (string list \<times> KVMap) list" where
  "report tags kv sink = (if kv = Map.empty then sink else sink @ [(tags, kv)])"

text \<open>
  Modelled from the spec: what the external reporter has received once the logged calls of
  \<^verbatim>\<open>c.report\<close> have run, each through \<open>report\<close>, in the order of the log.
\<close>

primrec reporterCalls ::
  "(string list \<times> KVMap) list \<Rightarrow> (string list \<times> KVMap) list \<Rightarrow> (string list \<times> KVMap) list" where
  "reporterCalls [] sink = sink"
| "reporterCalls (call # calls) sink = reporterCalls calls (report (fst call) (snd call) sink)"

subsection \<open>Example inputs\<close>

text \<open>
  Concrete inputs on which the theorems below are instantiated. The content of a document
  is a list of paths with their values; the query looks the property up, reports a path
  that is absent as not found, and fails on the value \<^verbatim>\<open>{}\<close>, which is not a scalar.
\<close>

definition demoQuery :: "string \<Rightarrow> (string \<times> string) list \<Rightarrow> string + string \<times> bool" where
  "demoQuery property obj =
     (case map_of obj property of
        None \<Rightarrow> Inr ('''', False)
      | Some v \<Rightarrow> if v = ''{}'' then Inl ''not a scalar'' else Inr (v, True))"

definition demoPod :: "(string \<times> string) list Unstructured" where
  "demoPod = \<lparr>Object = [(''spec.image'', ''baz'')], gvkKind = ''Pod'', gvkGroup = '''',
     gvkVersion = ''v1'', GetNamespace = ''default'', GetName = ''nginx''\<rparr>"

definition brokenPod :: "(string \<times> string) list Unstructured" where
  "brokenPod = \<lparr>Object = [(''spec.image'', ''{}'')], gvkKind = ''Pod'', gvkGroup = '''',
     gvkVersion = ''v1'', GetNamespace = ''default'', GetName = ''broken''\<rparr>"

definition demoClient :: "(string \<times> string) list kubeClient" where
  "demoClient = \<lparr>Get = (\<lambda>gvr ns name. Inr demoPod),
                  List = (\<lambda>gvr ns. Inr [demoPod, brokenPod, demoPod])\<rparr>"

definition demoField :: "string \<Rightarrow> string \<Rightarrow> string \<Rightarrow> string \<Rightarrow> ReportedField" where
  "demoField k property as v = \<lparr>Property = property, FieldKind = k, As = as, Value = v\<rparr>"

definition demoResource ::
  "string \<Rightarrow> string \<Rightarrow> string \<Rightarrow> string \<Rightarrow> ReportedField list \<Rightarrow> KubernetesResource" where
  "demoResource kind version verb name fs =
     \<lparr>Kind = kind, Version = version, Group = '''', Namespace = '''',
      APIRequest = \<lparr>Verb = verb, ResourceName = name\<rparr>, Report = fs\<rparr>"

definition demoCheck ::
  "string \<Rightarrow> string \<Rightarrow> ReportedField list \<Rightarrow> (string \<times> string) list kubeApiserverCheck" where
  "demoCheck verb name fs =
     \<lparr>base = \<lparr>ruleID = ''rule-1''\<rparr>, kubeClient = demoClient,
      kubeResource = demoResource ''pods'' ''v1'' verb name fs\<rparr>"

definition emptyWorld :: world where
  "emptyWorld = \<lparr>api_calls = [], reported = []\<rparr>"

lemmas demo_defs = demoQuery_def demoPod_def brokenPod_def demoClient_def demoField_def
  demoResource_def demoCheck_def emptyWorld_def

lemmas key_defs = kubeResourceNameKey_def kubeResourceGroupKey_def kubeResourceVersionKey_def
  kubeResourceNamespaceKey_def kubeResourceKindKey_def

section \<open>Properties of the loops\<close>

text \<open>The loop over the rules fails only in the two ways its body has.\<close>

lemma reportFields_error_kind:
  "reportFields rso p fs kv = Inl e \<Longrightarrow>
     (\<exists>x y. e = ExtractionError x y) \<or> (\<exists>k. e = UnsupportedRuleError k)"
  by (induction fs arbitrary: kv) (auto split: if_splits sum.splits prod.splits simp: Let_def)

text \<open>Rules are evaluated from left to right, and an error stops the evaluation.\<close>

lemma reportFields_append:
  "reportFields rso p (xs @ ys) kv =
     (case reportFields rso p xs kv of Inl e \<Rightarrow> Inl e | Inr kv' \<Rightarrow> reportFields rso p ys kv')"
  by (induction xs arbitrary: kv) (auto split: sum.splits prod.splits simp: Let_def)

text \<open>No assignment of the loop removes a key.\<close>

lemma reportFields_dom_mono:
  "reportFields rso p fs kv = Inr kv' \<Longrightarrow> dom kv \<subseteq> dom kv'"
proof (induction fs arbitrary: kv)
  case Nil
  then show ?case by simp
next
  case (Cons f fs)
  from Cons.prems obtain v b where q: "rso (Property f) (Object p) = Inr (v, b)"
    and k: "FieldKind f = PropertyKindJSONQuery"
    by (auto split: if_splits sum.splits)
  show ?case
  proof (cases b)
    case False
    with Cons.prems q k have "reportFields rso p fs kv = Inr kv'" by simp
    then show ?thesis by (rule Cons.IH)
  next
    case True
    define kv1 where "kv1 = kv((if length (As f) > 0 then As f else Property f) \<mapsto>
                        (if length (Value f) > 0 then Value f else v))"
    from Cons.prems q k True have "reportFields rso p fs kv1 = Inr kv'"
      by (simp add: kv1_def)
    then have "dom kv1 \<subseteq> dom kv'" by (rule Cons.IH)
    moreover have "dom kv \<subseteq> dom kv1" by (auto simp: kv1_def)
    ultimately show ?thesis by blast
  qed
qed

lemma reportFields_key_present:
  assumes kind: "FieldKind field = PropertyKindJSONQuery"
      and found: "rso (Property field) (Object p) = Inr (v, True)"
      and mem: "field \<in> set fs"
      and ok: "reportFields rso p fs acc = Inr kv"
  shows "(if length (As field) > 0 then As field else Property field) \<in> dom kv"
proof -
  let ?K = "if length (As field) > 0 then As field else Property field"
  let ?V = "if length (Value field) > 0 then Value field else v"
  from mem obtain xs ys where fs: "fs = xs @ field # ys"
    by (auto dest: split_list)
  from ok fs obtain kv1 where "reportFields rso p (field # ys) kv1 = Inr kv"
    by (auto simp: reportFields_append split: sum.splits)
  with kind found have "reportFields rso p ys (kv1(?K \<mapsto> ?V)) = Inr kv"
    by simp
  then have "dom (kv1(?K \<mapsto> ?V)) \<subseteq> dom kv"
    by (rule reportFields_dom_mono)
  then show ?thesis by auto
qed

text \<open>The metadata.\<close>

lemma keys_distinct:
  "distinct [kubeResourceKindKey, kubeResourceGroupKey, kubeResourceVersionKey,
             kubeResourceNamespaceKey, kubeResourceNameKey]"
  by (simp add: key_defs)

lemma addMetadata_nonempty:
  "kv \<noteq> Map.empty \<Longrightarrow>
   addMetadata p kv = kv(kubeResourceKindKey \<mapsto> gvkKind p,
           kubeResourceGroupKey \<mapsto> gvkGroup p,
           kubeResourceVersionKey \<mapsto> gvkVersion p,
           kubeResourceNamespaceKey \<mapsto> GetNamespace p,
           kubeResourceNameKey \<mapsto> GetName p)"
  by (simp add: addMetadata_def)

lemma addMetadata_empty_iff: "addMetadata p kv = Map.empty \<longleftrightarrow> kv = Map.empty"
  by (simp add: addMetadata_def)

(* C1 *)

text \<open>The two outcomes of \<^verbatim>\<open>reportResource\<close>.\<close>

lemma reportResource_ok:
  "reportFields rso p (Report (kubeResource c)) Map.empty = Inr kv \<Longrightarrow>
   reportResource rso c p w = (Inr (), w\<lparr>reported := reported w @ [([], addMetadata p kv)]\<rparr>)"
  by (simp add: reportResource_def)

lemma reportResource_err:
  "reportFields rso p (Report (kubeResource c)) Map.empty = Inl e \<Longrightarrow>
   reportResource rso c p w = (Inl e, w)"
  by (simp add: reportResource_def)

text \<open>Documents that are processed without error leave one call each, in their order.\<close>

lemma reportResources_ok:
  "list_all2 (\<lambda>p kv. reportFields rso p (Report (kubeResource c)) Map.empty = Inr kv) ps kvs \<Longrightarrow>
   reportResources rso c (ps @ qs) w =
     reportResources rso c qs
       (w\<lparr>reported := reported w @ map2 (\<lambda>p kv. ([], addMetadata p kv)) ps kvs\<rparr>)"
proof (induction ps kvs arbitrary: w rule: list_all2_induct)
  case Nil
  then show ?case by simp
next
  case (Cons p ps kv kvs)
  show ?case
    using Cons.hyps(1) Cons.IH [of "w\<lparr>reported := reported w @ [([], addMetadata p kv)]\<rparr>"]
    by (simp add: reportResource_ok)
qed

text \<open>Fetching the resources reports nothing.\<close>

lemma fetchResources_reported:
  "fetchResources c w = (r, w') \<Longrightarrow> reported w' = reported w"
  by (auto simp: fetchResources_def Let_def split: if_splits sum.splits)

text \<open>The reporter receives the calls in the order of the log, and never an empty record.\<close>

lemma reporterCalls_append:
  "reporterCalls (xs @ ys) sink = reporterCalls ys (reporterCalls xs sink)"
  by (induction xs arbitrary: sink) simp_all

lemma reporterCalls_nonempty:
  "\<forall>call \<in> set sink. snd call \<noteq> Map.empty \<Longrightarrow>
   \<forall>call \<in> set (reporterCalls calls sink). snd call \<noteq> Map.empty"
proof (induction calls arbitrary: sink)
  case Nil
  then show ?case by simp
next
  case (Cons c calls)
  have "\<forall>call \<in> set (report (fst c) (snd c) sink). snd call \<noteq> Map.empty"
    using Cons.prems by (auto simp: report_def)
  then have "\<forall>call \<in> set (reporterCalls calls (report (fst c) (snd c) sink)).
               snd call \<noteq> Map.empty"
    by (rule Cons.IH)
  then show ?case by simp
qed

section \<open>The claims\<close>

subsection \<open>Construction\<close>

text \<open>
  C6: construction fails with a configuration error when the kind is empty, and when the
  verb is empty; when both are non-empty it succeeds, whatever the other fields hold.
\<close>

theorem newKubeapiserverCheck_validation:
  "(Kind kr = [] \<longrightarrow>
      newKubeapiserverCheck bc kr kc =
        Inl (ConfigurationError ''resource kind is empty'' (ruleID bc)))
   \<and> (Verb (APIRequest kr) = [] \<longrightarrow>
        (\<exists>m. newKubeapiserverCheck bc kr kc = Inl (ConfigurationError m (ruleID bc))))
   \<and> (Kind kr \<noteq> [] \<and> Verb (APIRequest kr) \<noteq> [] \<longrightarrow>
        (\<exists>c. newKubeapiserverCheck bc kr kc = Inr c))"
  by (simp add: newKubeapiserverCheck_def)

theorem newKubeapiserverCheck_validation_witness:
  "newKubeapiserverCheck \<lparr>ruleID = ''rule-1''\<rparr>
       (demoResource '''' ''v1'' ''get'' ''nginx'' []) demoClient
     = Inl (ConfigurationError ''resource kind is empty'' ''rule-1'')
   \<and> (\<exists>m. newKubeapiserverCheck \<lparr>ruleID = ''rule-1''\<rparr>
             (demoResource ''pods'' ''v1'' '''' ''nginx'' []) demoClient
           = Inl (ConfigurationError m ''rule-1''))
   \<and> (\<exists>c. newKubeapiserverCheck \<lparr>ruleID = ''rule-1''\<rparr>
             (demoResource ''pods'' '''' ''get'' '''' []) demoClient = Inr c)"
  using
    newKubeapiserverCheck_validation
      [of "demoResource '''' ''v1'' ''get'' ''nginx'' []" "\<lparr>ruleID = ''rule-1''\<rparr>" demoClient]
    newKubeapiserverCheck_validation
      [of "demoResource ''pods'' ''v1'' '''' ''nginx'' []" "\<lparr>ruleID = ''rule-1''\<rparr>" demoClient]
    newKubeapiserverCheck_validation
      [of "demoResource ''pods'' '''' ''get'' '''' []" "\<lparr>ruleID = ''rule-1''\<rparr>" demoClient]
  by (simp add: demoResource_def)

text \<open>
  C7: when the kind and the verb are non-empty, construction succeeds; an empty version
  becomes \<^verbatim>\<open>"v1"\<close>, a non-empty version is kept, and so the version of the check is
  never empty.
\<close>

theorem newKubeapiserverCheck_version_default:
  assumes "Kind kr \<noteq> []" and "Verb (APIRequest kr) \<noteq> []"
  shows "\<exists>c. newKubeapiserverCheck bc kr kc = Inr c
           \<and> Version (kubeResource c) = (if Version kr = [] then ''v1'' else Version kr)
           \<and> Version (kubeResource c) \<noteq> []"
  using assms by (simp add: newKubeapiserverCheck_def)

theorem newKubeapiserverCheck_version_default_witness:
  "\<exists>c. newKubeapiserverCheck \<lparr>ruleID = ''rule-1''\<rparr>
          (demoResource ''pods'' '''' ''get'' ''nginx'' []) demoClient = Inr c
       \<and> Version (kubeResource c) = ''v1''"
  using newKubeapiserverCheck_version_default
    [of "demoResource ''pods'' '''' ''get'' ''nginx'' []" "\<lparr>ruleID = ''rule-1''\<rparr>" demoClient]
  by (auto simp: demoResource_def)

subsection \<open>Fetching\<close>

text \<open>
  C3: when the verb is neither \<^verbatim>\<open>get\<close> nor \<^verbatim>\<open>list\<close>, \<^verbatim>\<open>Run\<close> sends no request to the
  API, processes no document, calls the reporter for nothing and returns without error:
  the state is the one it started from.
\<close>

theorem Run_other_verb:
  assumes "Verb (APIRequest (kubeResource c)) \<noteq> ''get''"
      and "Verb (APIRequest (kubeResource c)) \<noteq> ''list''"
  shows "Run rso c w = (Inr (), w)"
  using assms by (simp add: Run_def fetchResources_def)

theorem Run_other_verb_witness:
  "Run demoQuery (demoCheck ''watch'' ''nginx''
       [demoField PropertyKindJSONQuery ''spec.image'' '''' '''']) emptyWorld = (Inr (), emptyWorld)"
  using Run_other_verb
    [of "demoCheck ''watch'' ''nginx'' [demoField PropertyKindJSONQuery ''spec.image'' '''' '''']"
        demoQuery emptyWorld]
  by (simp add: demoCheck_def demoResource_def)

text \<open>
  C5: with the verb \<^verbatim>\<open>get\<close> and an empty resource name, \<^verbatim>\<open>Run\<close> fails with the invalid
  request error before any request is sent, and the reporter is not called: the state is
  the one it started from.
\<close>

theorem Run_get_without_name:
  assumes "Verb (APIRequest (kubeResource c)) = ''get''"
      and "ResourceName (APIRequest (kubeResource c)) = []"
  shows "Run rso c w = (Inl (InvalidRequestError (ruleID (base c))), w)"
  using assms by (simp add: Run_def fetchResources_def)

theorem Run_get_without_name_witness:
  "Run demoQuery (demoCheck ''get'' ''''
       [demoField PropertyKindJSONQuery ''spec.image'' '''' '''']) emptyWorld
     = (Inl (InvalidRequestError ''rule-1''), emptyWorld)"
  using Run_get_without_name
    [of "demoCheck ''get'' '''' [demoField PropertyKindJSONQuery ''spec.image'' '''' '''']"
        demoQuery emptyWorld]
  by (simp add: demoCheck_def demoResource_def)

subsection \<open>Evaluating the rules\<close>

text \<open>
  C9: a \<^verbatim>\<open>jsonQuery\<close> rule whose query runs without error and finds nothing adds no pair
  to the record, and the evaluation goes on with the next rule: the rules before it and
  after it are evaluated as if the rule were not in the list, so not-found is no error.
\<close>

theorem reportFields_not_found_skipped:
  assumes "FieldKind field = PropertyKindJSONQuery"
      and "rso (Property field) (Object p) = Inr (v, False)"
  shows "reportFields rso p (pre @ field # post) kv = reportFields rso p (pre @ post) kv"
  using assms by (simp add: reportFields_append split: sum.splits)

theorem reportFields_not_found_skipped_witness:
  "reportFields demoQuery demoPod
      ([demoField PropertyKindJSONQuery ''spec.image'' '''' ''''] @
       demoField PropertyKindJSONQuery ''spec.missing'' ''gone'' ''x'' #
       [demoField PropertyKindJSONQuery ''spec.image'' ''foo'' '''']) Map.empty
   = Inr [''spec.image'' \<mapsto> ''baz'', ''foo'' \<mapsto> ''baz'']"
proof -
  let ?f = "demoField PropertyKindJSONQuery ''spec.missing'' ''gone'' ''x''"
  have h1: "FieldKind ?f = PropertyKindJSONQuery"
    by (simp add: demoField_def)
  have h2: "demoQuery (Property ?f) (Object demoPod) = Inr ('''', False)"
    by (simp add: demo_defs)
  show ?thesis
    using h1 h2
      reportFields_not_found_skipped
        [of ?f demoQuery demoPod "''''" "[demoField PropertyKindJSONQuery ''spec.image'' '''' '''']"
            "[demoField PropertyKindJSONQuery ''spec.image'' ''foo'' '''']" Map.empty]
    by (simp add: demo_defs)
qed

text \<open>
  C4: when the query of a \<^verbatim>\<open>jsonQuery\<close> rule finds a value, the pair put into the record
  has the key \<^verbatim>\<open>As\<close> when that is non-empty and \<^verbatim>\<open>Property\<close> otherwise, and the value
  \<^verbatim>\<open>Value\<close> when that is non-empty and the value found otherwise. If the rule is one of
  the rules of the check and all of them are evaluated without error on the document,
  the record passed to the reporter holds that key and the five metadata keys.
\<close>

theorem reportFields_found_pair:
  assumes kind: "FieldKind field = PropertyKindJSONQuery"
      and found: "rso (Property field) (Object p) = Inr (v, True)"
      and mem: "field \<in> set (Report (kubeResource c))"
      and ok: "reportFields rso p (Report (kubeResource c)) Map.empty = Inr kv"
  shows "reportFields rso p (field # rest) acc =
           reportFields rso p rest
             (acc((if length (As field) > 0 then As field else Property field) \<mapsto>
                  (if length (Value field) > 0 then Value field else v)))
         \<and> (\<exists>r. reportResource rso c p w = (Inr (), w\<lparr>reported := reported w @ [([], r)]\<rparr>)
               \<and> (if length (As field) > 0 then As field else Property field) \<in> dom r
               \<and> {kubeResourceKindKey, kubeResourceGroupKey, kubeResourceVersionKey,
                   kubeResourceNamespaceKey, kubeResourceNameKey} \<subseteq> dom r)"
proof -
  let ?K = "if length (As field) > 0 then As field else Property field"
  have step: "reportFields rso p (field # rest) acc =
           reportFields rso p rest
             (acc(?K \<mapsto> (if length (Value field) > 0 then Value field else v)))"
    using kind found by simp
  have K: "?K \<in> dom kv"
    using kind found mem ok by (rule reportFields_key_present)
  then have ne: "kv \<noteq> Map.empty" by auto
  have run: "reportResource rso c p w =
               (Inr (), w\<lparr>reported := reported w @ [([], addMetadata p kv)]\<rparr>)"
    using ok by (rule reportResource_ok)
  have dom: "dom (addMetadata p kv) = dom kv \<union> {kubeResourceKindKey, kubeResourceGroupKey,
                kubeResourceVersionKey, kubeResourceNamespaceKey, kubeResourceNameKey}"
    by (simp add: addMetadata_nonempty [OF ne]) blast
  have "?K \<in> dom (addMetadata p kv)"
    using K dom by blast
  moreover have "{kubeResourceKindKey, kubeResourceGroupKey, kubeResourceVersionKey,
                   kubeResourceNamespaceKey, kubeResourceNameKey} \<subseteq> dom (addMetadata p kv)"
    using dom by blast
  ultimately show ?thesis
    using step run by blast
qed

theorem reportFields_found_pair_witness:
  "reportFields demoQuery demoPod
       [demoField PropertyKindJSONQuery ''spec.image'' ''foo'' ''bar''] Map.empty
     = Inr [''foo'' \<mapsto> ''bar'']
   \<and> (\<exists>r. reportResource demoQuery (demoCheck ''get'' ''nginx''
              [demoField PropertyKindJSONQuery ''spec.image'' ''foo'' ''bar'']) demoPod emptyWorld
            = (Inr (), \<lparr>api_calls = [], reported = [([], r)]\<rparr>)
          \<and> ''foo'' \<in> dom r
          \<and> {kubeResourceKindKey, kubeResourceGroupKey, kubeResourceVersionKey,
              kubeResourceNamespaceKey, kubeResourceNameKey} \<subseteq> dom r)"
proof -
  let ?f = "demoField PropertyKindJSONQuery ''spec.image'' ''foo'' ''bar''"
  let ?c = "demoCheck ''get'' ''nginx'' [?f]"
  have h1: "FieldKind ?f = PropertyKindJSONQuery"
    by (simp add: demoField_def)
  have h2: "demoQuery (Property ?f) (Object demoPod) = Inr (''baz'', True)"
    by (simp add: demo_defs)
  have h3: "?f \<in> set (Report (kubeResource ?c))"
    by (simp add: demoCheck_def demoResource_def)
  have h4: "reportFields demoQuery demoPod (Report (kubeResource ?c)) Map.empty
              = Inr [''foo'' \<mapsto> ''bar'']"
    by (simp add: demo_defs)
  show ?thesis
    using reportFields_found_pair [OF h1 h2 h3 h4, of "[]" Map.empty emptyWorld]
    by (simp add: demoField_def emptyWorld_def)
qed

text \<open>
  C8: a rule whose kind is not \<^verbatim>\<open>jsonQuery\<close> does not make construction fail; evaluating
  it fails with the unsupported rule error, on every document and whatever the record
  holds by then; and \<^verbatim>\<open>Run\<close> returns that error, with nothing reported, as soon as the
  first document is one on which the rules before it are evaluated without error.
\<close>

theorem unsupported_kind_at_evaluation:
  assumes k: "Kind kr \<noteq> []" and v: "Verb (APIRequest kr) \<noteq> []"
      and rules: "Report kr = pre @ field # post"
      and unsupported: "FieldKind field \<noteq> PropertyKindJSONQuery"
  shows "\<exists>c. newKubeapiserverCheck bc kr kc = Inr c
           \<and> (\<forall>p rest acc. reportFields rso p (field # rest) acc =
                              Inl (UnsupportedRuleError (FieldKind field)))
           \<and> (\<forall>w d ds w0 kv0.
                 fetchResources c w = (Inr (d # ds), w0) \<and>
                 reportFields rso d pre Map.empty = Inr kv0 \<longrightarrow>
                 Run rso c w = (Inl (UnsupportedRuleError (FieldKind field)), w0))"
proof -
  define c :: "'a kubeApiserverCheck" where
    "c = \<lparr>base = bc, kubeClient = kc,
          kubeResource = (if length (Version kr) = 0 then kr\<lparr>Version := ''v1''\<rparr> else kr)\<rparr>"
  have new: "newKubeapiserverCheck bc kr kc = Inr c"
    using k v by (simp add: newKubeapiserverCheck_def c_def)
  have rep: "Report (kubeResource c) = pre @ field # post"
    using rules by (simp add: c_def)
  have step: "reportFields rso p (field # rest) acc = Inl (UnsupportedRuleError (FieldKind field))"
    for p rest acc
    using unsupported by simp
  have run: "Run rso c w = (Inl (UnsupportedRuleError (FieldKind field)), w0)"
    if f: "fetchResources c w = (Inr (d # ds), w0)"
      and p: "reportFields rso d pre Map.empty = Inr kv0" for w d ds w0 kv0
  proof -
    have "reportFields rso d (Report (kubeResource c)) Map.empty =
            Inl (UnsupportedRuleError (FieldKind field))"
      using p unsupported by (simp add: rep reportFields_append)
    then have "reportResource rso c d w0 = (Inl (UnsupportedRuleError (FieldKind field)), w0)"
      by (rule reportResource_err)
    then show ?thesis using f by (simp add: Run_def)
  qed
  show ?thesis
    using new step run by blast
qed

theorem unsupported_kind_at_evaluation_witness:
  "\<exists>c. newKubeapiserverCheck \<lparr>ruleID = ''rule-1''\<rparr>
          (demoResource ''pods'' ''v1'' ''get'' ''nginx''
             [demoField PropertyKindJSONQuery ''spec.image'' '''' '''',
              demoField ''attribute'' ''spec.image'' '''' '''']) demoClient = Inr c
       \<and> Run demoQuery c emptyWorld
           = (Inl (UnsupportedRuleError ''attribute''),
              \<lparr>api_calls = [GetCall \<lparr>gvrGroup = '''', gvrResource = ''pods'', gvrVersion = ''v1''\<rparr>
                             '''' ''nginx''],
               reported = []\<rparr>)"
proof -
  let ?f = "demoField ''attribute'' ''spec.image'' '''' ''''"
  let ?kr = "demoResource ''pods'' ''v1'' ''get'' ''nginx''
               [demoField PropertyKindJSONQuery ''spec.image'' '''' '''', ?f]"
  let ?w0 = "\<lparr>api_calls = [GetCall \<lparr>gvrGroup = '''', gvrResource = ''pods'', gvrVersion = ''v1''\<rparr>
                             '''' ''nginx''], reported = []\<rparr>"
  have h1: "Kind ?kr \<noteq> []" and h2: "Verb (APIRequest ?kr) \<noteq> []"
    by (simp_all add: demoResource_def)
  have h3: "Report ?kr = [demoField PropertyKindJSONQuery ''spec.image'' '''' ''''] @ ?f # []"
    by (simp add: demoResource_def)
  have h4: "FieldKind ?f \<noteq> PropertyKindJSONQuery"
    by (simp add: demoField_def PropertyKindJSONQuery_def)
  from unsupported_kind_at_evaluation [OF h1 h2 h3 h4, of "\<lparr>ruleID = ''rule-1''\<rparr>" demoClient demoQuery]
  obtain c where new: "newKubeapiserverCheck \<lparr>ruleID = ''rule-1''\<rparr> ?kr demoClient = Inr c"
    and run: "\<And>w d ds w0 kv0. fetchResources c w = (Inr (d # ds), w0) \<Longrightarrow>
                 reportFields demoQuery d [demoField PropertyKindJSONQuery ''spec.image'' '''' '''']
                   Map.empty = Inr kv0 \<Longrightarrow>
                 Run demoQuery c w = (Inl (UnsupportedRuleError (FieldKind ?f)), w0)"
    by blast
  from new have c: "c = \<lparr>base = \<lparr>ruleID = ''rule-1''\<rparr>, kubeClient = demoClient, kubeResource = ?kr\<rparr>"
    by (simp add: newKubeapiserverCheck_def demoResource_def)
  have f: "fetchResources c emptyWorld = (Inr (demoPod # []), ?w0)"
    by (simp add: c fetchResources_def demoResource_def demoClient_def emptyWorld_def)
  have p: "reportFields demoQuery demoPod [demoField PropertyKindJSONQuery ''spec.image'' '''' '''']
             Map.empty = Inr [''spec.image'' \<mapsto> ''baz'']"
    by (simp add: demo_defs)
  from run [OF f p] new show ?thesis
    by (simp add: demoField_def)
qed

subsection \<open>Reporting\<close>

text \<open>
  C10: when the record of a document is not empty, each of the five metadata keys holds
  in the record passed to the reporter what the document says (kind, group, version,
  namespace, name), whatever the rules had put under that key: the metadata is assigned
  after the rules, in the same map. Every other key keeps the value the rules gave it.
\<close>

theorem metadata_overwrites:
  assumes ok: "reportFields rso p (Report (kubeResource c)) Map.empty = Inr kv"
      and ne: "kv \<noteq> Map.empty"
  shows "\<exists>r. reportResource rso c p w = (Inr (), w\<lparr>reported := reported w @ [([], r)]\<rparr>)
           \<and> r kubeResourceKindKey = Some (gvkKind p)
           \<and> r kubeResourceGroupKey = Some (gvkGroup p)
           \<and> r kubeResourceVersionKey = Some (gvkVersion p)
           \<and> r kubeResourceNamespaceKey = Some (GetNamespace p)
           \<and> r kubeResourceNameKey = Some (GetName p)
           \<and> (\<forall>k. k \<notin> {kubeResourceKindKey, kubeResourceGroupKey, kubeResourceVersionKey,
                        kubeResourceNamespaceKey, kubeResourceNameKey} \<longrightarrow> r k = kv k)"
proof (intro exI [of _ "addMetadata p kv"] conjI)
  show "reportResource rso c p w =
          (Inr (), w\<lparr>reported := reported w @ [([], addMetadata p kv)]\<rparr>)"
    using ok by (rule reportResource_ok)
qed (use keys_distinct in \<open>simp_all add: addMetadata_nonempty [OF ne]\<close>)

theorem metadata_overwrites_witness:
  "reportFields demoQuery demoPod
      (Report (kubeResource (demoCheck ''get'' ''nginx''
         [demoField PropertyKindJSONQuery ''spec.image'' kubeResourceNameKey ''override'']))) Map.empty
     = Inr [kubeResourceNameKey \<mapsto> ''override'']
   \<and> (\<exists>r. reportResource demoQuery (demoCheck ''get'' ''nginx''
         [demoField PropertyKindJSONQuery ''spec.image'' kubeResourceNameKey ''override''])
           demoPod emptyWorld = (Inr (), \<lparr>api_calls = [], reported = [([], r)]\<rparr>)
         \<and> r kubeResourceNameKey = Some ''nginx'')"
proof -
  let ?c = "demoCheck ''get'' ''nginx''
         [demoField PropertyKindJSONQuery ''spec.image'' kubeResourceNameKey ''override'']"
  have h1: "reportFields demoQuery demoPod (Report (kubeResource ?c)) Map.empty
              = Inr [kubeResourceNameKey \<mapsto> ''override'']"
    by (simp add: demo_defs kubeResourceNameKey_def)
  have h2: "[kubeResourceNameKey \<mapsto> ''override''] \<noteq> Map.empty"
    by simp
  from metadata_overwrites [OF h1 h2, of emptyWorld] h1 show ?thesis
    by (auto simp: emptyWorld_def demoPod_def)
qed

text \<open>
  C2: when the documents before one document are processed without error and the rules
  fail on that document, \<^verbatim>\<open>Run\<close> returns that error, which is an extraction error or an
  unsupported rule error. The calls of the reporter are then those made for the
  documents before it, one each in their order, and none is made for the failing
  document or for the documents after it.
\<close>

theorem Run_aborts_at_first_error:
  assumes fetch: "fetchResources c w = (Inr (pre @ d # post), w0)"
      and pre: "list_all2 (\<lambda>p kv. reportFields rso p (Report (kubeResource c)) Map.empty = Inr kv) pre kvs"
      and d: "reportFields rso d (Report (kubeResource c)) Map.empty = Inl e"
  shows "Run rso c w =
           (Inl e, w0\<lparr>reported := reported w @ map2 (\<lambda>p kv. ([], addMetadata p kv)) pre kvs\<rparr>)
         \<and> ((\<exists>x y. e = ExtractionError x y) \<or> (\<exists>k. e = UnsupportedRuleError k))"
proof -
  have r: "reported w0 = reported w"
    using fetch by (rule fetchResources_reported)
  have "Run rso c w = reportResources rso c (pre @ d # post) w0"
    using fetch by (simp add: Run_def)
  also have "\<dots> = reportResources rso c (d # post)
       (w0\<lparr>reported := reported w0 @ map2 (\<lambda>p kv. ([], addMetadata p kv)) pre kvs\<rparr>)"
    using pre by (rule reportResources_ok)
  also have "\<dots> = (Inl e, w0\<lparr>reported := reported w @ map2 (\<lambda>p kv. ([], addMetadata p kv)) pre kvs\<rparr>)"
    using d by (simp add: reportResource_err r)
  finally show ?thesis
    using reportFields_error_kind [OF d] by simp
qed

theorem Run_aborts_at_first_error_witness:
  "fetchResources (demoCheck ''list'' ''''
       [demoField PropertyKindJSONQuery ''spec.image'' ''foo'' ''bar'']) emptyWorld
     = (Inr ([demoPod] @ brokenPod # [demoPod]),
        \<lparr>api_calls = [ListCall \<lparr>gvrGroup = '''', gvrResource = ''pods'', gvrVersion = ''v1''\<rparr> ''''],
         reported = []\<rparr>)
   \<and> Run demoQuery (demoCheck ''list'' ''''
       [demoField PropertyKindJSONQuery ''spec.image'' ''foo'' ''bar'']) emptyWorld
     = (Inl (ExtractionError ''spec.image'' ''not a scalar''),
        \<lparr>api_calls = [ListCall \<lparr>gvrGroup = '''', gvrResource = ''pods'', gvrVersion = ''v1''\<rparr> ''''],
         reported = [([], addMetadata demoPod [''foo'' \<mapsto> ''bar''])]\<rparr>)"
proof -
  let ?c = "demoCheck ''list'' '''' [demoField PropertyKindJSONQuery ''spec.image'' ''foo'' ''bar'']"
  let ?w0 = "\<lparr>api_calls = [ListCall \<lparr>gvrGroup = '''', gvrResource = ''pods'', gvrVersion = ''v1''\<rparr> ''''],
         reported = []\<rparr>"
  have h1: "fetchResources ?c emptyWorld = (Inr ([demoPod] @ brokenPod # [demoPod]), ?w0)"
    by (simp add: fetchResources_def demoCheck_def demoResource_def demoClient_def emptyWorld_def)
  have h2: "list_all2 (\<lambda>p kv. reportFields demoQuery p (Report (kubeResource ?c)) Map.empty = Inr kv)
              [demoPod] [[''foo'' \<mapsto> ''bar'']]"
    by (simp add: demo_defs)
  have h3: "reportFields demoQuery brokenPod (Report (kubeResource ?c)) Map.empty
              = Inl (ExtractionError ''spec.image'' ''not a scalar'')"
    by (simp add: demo_defs)
  show ?thesis
    using h1 Run_aborts_at_first_error [OF h1 h2 h3] by (simp add: emptyWorld_def)
qed

text \<open>
  C1: for a document on which all rules are evaluated without error, \<^verbatim>\<open>reportResource\<close>
  succeeds, and if no rule gave a value the external reporter receives no call for the
  document: the record reaches \<^verbatim>\<open>c.report\<close> empty, without the metadata keys, and is
  discarded there. If a rule gave a value, the reporter receives one call, with a record
  that is not empty. And whatever \<^verbatim>\<open>Run\<close> does, no record the reporter has received
  after it is empty.
\<close>

theorem empty_record_not_reported:
  assumes ok: "reportFields rso p (Report (kubeResource c)) Map.empty = Inr kv"
  shows "(\<exists>w'. reportResource rso c p w = (Inr (), w')
            \<and> (kv = Map.empty \<longrightarrow>
                  reporterCalls (reported w') sink = reporterCalls (reported w) sink)
            \<and> (kv \<noteq> Map.empty \<longrightarrow>
                  (\<exists>r. r \<noteq> Map.empty \<and>
                     reporterCalls (reported w') sink =
                       reporterCalls (reported w) sink @ [([], r)])))
         \<and> (\<forall>call \<in> set (reporterCalls (reported (snd (Run rso c w))) []).
               snd call \<noteq> Map.empty)"
proof (intro conjI)
  let ?w' = "w\<lparr>reported := reported w @ [([], addMetadata p kv)]\<rparr>"
  have run: "reportResource rso c p w = (Inr (), ?w')"
    using ok by (rule reportResource_ok)
  have calls: "reporterCalls (reported ?w') sink =
                 report [] (addMetadata p kv) (reporterCalls (reported w) sink)"
    by (simp add: reporterCalls_append)
  have none: "reporterCalls (reported ?w') sink = reporterCalls (reported w) sink"
    if "kv = Map.empty"
  proof -
    from that have "addMetadata p kv = Map.empty"
      by (simp add: addMetadata_empty_iff)
    then show ?thesis
      unfolding calls by (simp add: report_def)
  qed
  have one: "\<exists>r. r \<noteq> Map.empty \<and>
               reporterCalls (reported ?w') sink = reporterCalls (reported w) sink @ [([], r)]"
    if "kv \<noteq> Map.empty"
  proof -
    from that have ne: "addMetadata p kv \<noteq> Map.empty"
      by (simp add: addMetadata_empty_iff)
    then have "reporterCalls (reported ?w') sink =
                 reporterCalls (reported w) sink @ [([], addMetadata p kv)]"
      unfolding calls by (simp add: report_def)
    with ne show ?thesis by blast
  qed
  show "\<exists>w'. reportResource rso c p w = (Inr (), w')
            \<and> (kv = Map.empty \<longrightarrow>
                  reporterCalls (reported w') sink = reporterCalls (reported w) sink)
            \<and> (kv \<noteq> Map.empty \<longrightarrow>
                  (\<exists>r. r \<noteq> Map.empty \<and>
                     reporterCalls (reported w') sink =
                       reporterCalls (reported w) sink @ [([], r)]))"
    using run none one by blast
  show "\<forall>call \<in> set (reporterCalls (reported (snd (Run rso c w))) []). snd call \<noteq> Map.empty"
    by (rule reporterCalls_nonempty) simp
qed

theorem empty_record_not_reported_witness:
  "reportFields demoQuery demoPod
      (Report (kubeResource (demoCheck ''get'' ''nginx''
         [demoField PropertyKindJSONQuery ''spec.missing'' '''' '''']))) Map.empty = Inr Map.empty
   \<and> reported (snd (reportResource demoQuery (demoCheck ''get'' ''nginx''
         [demoField PropertyKindJSONQuery ''spec.missing'' '''' '''']) demoPod emptyWorld))
       = [([], Map.empty)]
   \<and> reporterCalls (reported (snd (reportResource demoQuery (demoCheck ''get'' ''nginx''
         [demoField PropertyKindJSONQuery ''spec.missing'' '''' '''']) demoPod emptyWorld))) [] = []
   \<and> reportFields demoQuery demoPod
      (Report (kubeResource (demoCheck ''get'' ''nginx''
         [demoField PropertyKindJSONQuery ''spec.image'' ''foo'' ''bar'']))) Map.empty
       = Inr [''foo'' \<mapsto> ''bar'']
   \<and> reporterCalls (reported (snd (Run demoQuery (demoCheck ''get'' ''nginx''
         [demoField PropertyKindJSONQuery ''spec.image'' ''foo'' ''bar'']) emptyWorld))) []
       = [([], addMetadata demoPod [''foo'' \<mapsto> ''bar''])]
   \<and> addMetadata demoPod [''foo'' \<mapsto> ''bar''] \<noteq> Map.empty"
proof -
  let ?c0 = "demoCheck ''get'' ''nginx'' [demoField PropertyKindJSONQuery ''spec.missing'' '''' '''']"
  let ?c1 = "demoCheck ''get'' ''nginx'' [demoField PropertyKindJSONQuery ''spec.image'' ''foo'' ''bar'']"
  have h0: "reportFields demoQuery demoPod (Report (kubeResource ?c0)) Map.empty = Inr Map.empty"
    by (simp add: demo_defs)
  have h1: "reportFields demoQuery demoPod (Report (kubeResource ?c1)) Map.empty
              = Inr [''foo'' \<mapsto> ''bar'']"
    by (simp add: demo_defs)
  have r0: "reportResource demoQuery ?c0 demoPod emptyWorld
              = (Inr (), \<lparr>api_calls = [], reported = [([], Map.empty)]\<rparr>)"
    using h0 by (simp add: reportResource_def addMetadata_def emptyWorld_def)
  have r1: "reported (snd (Run demoQuery ?c1 emptyWorld))
              = [([], addMetadata demoPod [''foo'' \<mapsto> ''bar''])]"
    using h1 by (simp add: Run_def fetchResources_def reportResource_def demoCheck_def
        demoResource_def demoClient_def emptyWorld_def)
  have ne: "addMetadata demoPod [''foo'' \<mapsto> ''bar''] \<noteq> Map.empty"
    by (simp add: addMetadata_empty_iff)
  show ?thesis
    using h0 h1 ne
      empty_record_not_reported [OF h0, of emptyWorld "[]"]
      empty_record_not_reported [OF h1, of emptyWorld "[]"]
    by (simp add: r0 r1 report_def)
qed

end
